theory Spec2Isabelle
  imports Complex_Main
begin

section \<open>Data model of the field editor (src/components/PDFViewer.tsx)\<close>

text \<open>
  The component \<open>PDFViewer\<close> keeps five pieces of React state and one ref, and defines
  eight handlers over them. Each handler is embedded as a function from the state of the
  render it closes over to the state after its setters have been applied; the two
  asynchronous handlers also return the remote calls they issue and the notifications
  they raise.

  A TypeScript \<open>number\<close> is a real here. The only arithmetic the component performs on
  coordinates is the subtraction of the surface's origin in \<open>handleAddField\<close>. The page
  counter starts at 1 and only moves by 1, and the page count is a count, so both are
  integers; stored in a field, the counter is embedded among the numbers.
\<close>

text \<open>
  What an attribute declared \<open>number\<close> holds at run time: the number written by
  \<open>handleAddField\<close> or loaded from the store, or the string that \<open>handleFieldChange\<close>
  copies from \<open>e.target.value\<close>.
\<close>

datatype jsval = Num real | Str string

text \<open>
  Modelled from the spec: the declarations of \<open>PDFField\<close> and \<open>PDFTemplate\<close> live in
  \<open>src/types\<close>, which is not among the sources. The attributes are those of the object
  literal built in \<open>handleAddField\<close> (lines 55-65) and of section 3 of the specification;
  of a template only \<open>id\<close> and \<open>file_url\<close> are read. \<open>FieldBody\<close> is a field without its
  identifier, the shape of a row handed to the store's insert; \<open>id'\<close> is the attribute \<open>id\<close>
  and \<open>tid\<close> is \<open>template.id\<close>. The kind \<open>type\<close> is "editable" or "prefilled" by declaration;
  at run time it holds the string that \<open>handleFieldChange\<close> copies into it, so it is a
  string here.
\<close>

record FieldBody =
  template_id :: string
  name :: string
  type :: string
  x :: jsval
  y :: jsval
  width :: jsval
  height :: jsval
  page :: jsval

record PDFField = FieldBody +
  id' :: string

record PDFTemplate =
  tid :: string
  file_url :: string

text \<open>\<open>keyof PDFField\<close>, the type of the third argument of \<open>handleFieldChange\<close>.\<close>

datatype PDFField_key =
  K_id | K_template_id | K_name | K_type | K_x | K_y | K_width | K_height | K_page

text \<open>Reading an attribute by its key, \<open>field[key]\<close>.\<close>

fun attr :: "PDFField_key \<Rightarrow> PDFField \<Rightarrow> jsval" where
  "attr K_id f = Str (id' f)"
| "attr K_template_id f = Str (template_id f)"
| "attr K_name f = Str (name f)"
| "attr K_type f = Str (type f)"
| "attr K_x f = x f"
| "attr K_y f = y f"
| "attr K_width f = width f"
| "attr K_height f = height f"
| "attr K_page f = page f"

text \<open>The object spread \<open>{ ...field, [key]: value }\<close> with a string value.\<close>

fun set_attr :: "PDFField_key \<Rightarrow> string \<Rightarrow> PDFField \<Rightarrow> PDFField" where
  "set_attr K_id v f = f\<lparr>id' := v\<rparr>"
| "set_attr K_template_id v f = f\<lparr>template_id := v\<rparr>"
| "set_attr K_name v f = f\<lparr>name := v\<rparr>"
| "set_attr K_type v f = f\<lparr>type := v\<rparr>"
| "set_attr K_x v f = f\<lparr>x := Str v\<rparr>"
| "set_attr K_y v f = f\<lparr>y := Str v\<rparr>"
| "set_attr K_width v f = f\<lparr>width := Str v\<rparr>"
| "set_attr K_height v f = f\<lparr>height := Str v\<rparr>"
| "set_attr K_page v f = f\<lparr>page := Str v\<rparr>"

text \<open>
  The part of \<open>getBoundingClientRect()\<close> and of the click event that \<open>handleAddField\<close>
  reads.
\<close>

record DOMRect =
  rect_left :: real
  rect_top :: real

record MouseEvent =
  clientX :: real
  clientY :: real

text \<open>
  The component's state (lines 16-21); \<open>fields'\<close> is the state variable \<open>fields\<close>.
  \<open>containerRef\<close> is \<open>None\<close> while \<open>containerRef.current\<close> is null and otherwise holds
  the bounding box of the surface.
\<close>

record State =
  numPages :: int
  pageNumber :: int
  fields' :: "PDFField list"
  selectedField :: "PDFField option"
  isEditing :: bool
  containerRef :: "DOMRect option"

section \<open>Synchronous handlers\<close>

definition onDocumentLoadSuccess :: "int \<Rightarrow> State \<Rightarrow> State" where
  "onDocumentLoadSuccess n st = st\<lparr>numPages := n\<rparr>"

definition handlePageChange :: "int \<Rightarrow> State \<Rightarrow> State" where
  "handlePageChange newPage st = st\<lparr>pageNumber := newPage\<rparr>"

text \<open>
  \<open>handleAddField\<close> (lines 49-69). The argument \<open>generated\<close> is the value of
  \<open>Math.random().toString(36).substring(2, 15)\<close>, which the environment supplies; the
  handler does not compare it with the identifiers already in the collection.
\<close>

definition newField :: "PDFTemplate \<Rightarrow> string \<Rightarrow> MouseEvent \<Rightarrow> DOMRect \<Rightarrow> int \<Rightarrow> PDFField" where
  "newField template generated e rect p =
     \<lparr>template_id = tid template,
      name = ''New Field'',
      type = ''editable'',
      x = Num (clientX e - rect_left rect),
      y = Num (clientY e - rect_top rect),
      width = Num 100,
      height = Num 20,
      page = Num (of_int p),
      id' = generated\<rparr>"

definition handleAddField :: "PDFTemplate \<Rightarrow> string \<Rightarrow> MouseEvent \<Rightarrow> State \<Rightarrow> State" where
  "handleAddField template generated e st =
     (case containerRef st of
        None \<Rightarrow> st
      | Some rect \<Rightarrow>
          (let nf = newField template generated e rect (pageNumber st)
           in st\<lparr>fields' := fields' st @ [nf], selectedField := Some nf, isEditing := True\<rparr>))"

definition handleFieldClick :: "PDFField \<Rightarrow> State \<Rightarrow> State" where
  "handleFieldClick field st = st\<lparr>selectedField := Some field, isEditing := True\<rparr>"

text \<open>\<open>handleFieldChange\<close> (lines 76-83); \<open>v\<close> is \<open>e.target.value\<close>.\<close>

definition handleFieldChange :: "string \<Rightarrow> string \<Rightarrow> PDFField_key \<Rightarrow> State \<Rightarrow> State" where
  "handleFieldChange v fieldId k st =
     st\<lparr>fields' := map (\<lambda>field. if id' field = fieldId then set_attr k v field else field) (fields' st)\<rparr>"

definition handleFieldDelete :: "string \<Rightarrow> State \<Rightarrow> State" where
  "handleFieldDelete fieldId st =
     st\<lparr>fields' := filter (\<lambda>field. id' field \<noteq> fieldId) (fields' st),
        selectedField := None,
        isEditing := False\<rparr>"

section \<open>What the component renders (lines 121-255)\<close>

text \<open>
  One element of the overlay, as built by \<open>fields.map\<close> (lines 132-214): its React key,
  the field its \<open>onClick\<close> closure passes to \<open>handleFieldClick\<close>, whether it carries the
  highlight ring, its inline style, and whether the inspector is rendered inside it.
\<close>

record Region =
  region_key :: string
  onClick_field :: PDFField
  ring :: bool
  style_left :: jsval
  style_top :: jsval
  style_width :: jsval
  style_height :: jsval
  inspector :: bool

text \<open>\<open>selectedField?.id === field.id\<close>.\<close>

definition is_selected :: "State \<Rightarrow> PDFField \<Rightarrow> bool" where
  "is_selected st field =
     (case selectedField st of None \<Rightarrow> False | Some s \<Rightarrow> id' s = id' field)"

definition render_field :: "State \<Rightarrow> PDFField \<Rightarrow> Region" where
  "render_field st field =
     \<lparr>region_key = id' field,
      onClick_field = field,
      ring = is_selected st field,
      style_left = x field,
      style_top = y field,
      style_width = width field,
      style_height = height field,
      inspector = (is_selected st field \<and> isEditing st)\<rparr>"

definition render_fields :: "State \<Rightarrow> Region list" where
  "render_fields st = map (render_field st) (fields' st)"

text \<open>
  What the rendering library makes of a style value given for \<open>left\<close>, \<open>top\<close>, \<open>width\<close> or
  \<open>height\<close>: to a number it appends the unit \<open>px\<close>, and a string it hands on as it is,
  adding no unit. \<open>px_length\<close> is the pixel length a value gets by the rule for numbers;
  a string gets none from it.
\<close>

fun px_length :: "jsval \<Rightarrow> real option" where
  "px_length (Num n) = Some n"
| "px_length (Str s) = None"

text \<open>The \<open>disabled\<close> attributes of the two navigation buttons (lines 219 and 229).\<close>

definition previous_disabled :: "State \<Rightarrow> bool" where
  "previous_disabled st = (pageNumber st \<le> 1)"

definition next_disabled :: "State \<Rightarrow> bool" where
  "next_disabled st = (pageNumber st \<ge> numPages st)"

text \<open>A click on a disabled button dispatches no \<open>onClick\<close>.\<close>

datatype nav_button = Previous | Next

fun click_nav :: "nav_button \<Rightarrow> State \<Rightarrow> State" where
  "click_nav Previous st =
     (if previous_disabled st then st else handlePageChange (pageNumber st - 1) st)"
| "click_nav Next st =
     (if next_disabled st then st else handlePageChange (pageNumber st + 1) st)"

fun click_navs :: "nav_button list \<Rightarrow> State \<Rightarrow> State" where
  "click_navs [] st = st"
| "click_navs (b # bs) st = click_navs bs (click_nav b st)"

text \<open>
  Click dispatch. The surface \<open>div\<close> carries \<open>onClick={handleAddField}\<close> (line 127) and every
  field's \<open>div\<close>, a child of the surface, carries \<open>onClick={() => handleFieldClick(field)}\<close>
  (line 135). Neither handler stops propagation, so a click on a field's region runs the
  field's handler and then, bubbling, the surface's. Both close over the same render;
  \<open>handleAddField\<close> reads only \<open>fields\<close>, \<open>pageNumber\<close> and the template, none of which
  \<open>handleFieldClick\<close> sets, so applying the setters in dispatch order is the composition.
\<close>

definition click_surface :: "PDFTemplate \<Rightarrow> string \<Rightarrow> MouseEvent \<Rightarrow> State \<Rightarrow> State" where
  "click_surface template generated e st = handleAddField template generated e st"

definition click_region :: "PDFTemplate \<Rightarrow> string \<Rightarrow> MouseEvent \<Rightarrow> Region \<Rightarrow> State \<Rightarrow> State" where
  "click_region template generated e r st =
     handleAddField template generated e (handleFieldClick (onClick_field r) st)"

text \<open>
  The trash button (lines 151-156) is rendered inside the inspector, inside the region of
  the field, inside the surface, and its \<open>onClick\<close> does not stop propagation either: one
  click on it runs \<open>handleFieldDelete(field.id)\<close>, then the region's
  \<open>handleFieldClick(field)\<close>, then the surface's \<open>handleAddField(e)\<close>. Here a later handler
  reads what an earlier one sets, so the dispatch is written out: the three closures
  belong to the same render, each computes the arguments of its setter calls from the
  state of that render, and the calls take effect in the order they are made, a later
  call of a setter replacing the value of an earlier one.
\<close>

datatype setter =
  SetNumPages int
| SetPageNumber int
| SetFields "PDFField list"
| SetSelectedField "PDFField option"
| SetIsEditing bool

fun apply_setter :: "setter \<Rightarrow> State \<Rightarrow> State" where
  "apply_setter (SetNumPages n) s = s\<lparr>numPages := n\<rparr>"
| "apply_setter (SetPageNumber p) s = s\<lparr>pageNumber := p\<rparr>"
| "apply_setter (SetFields fs) s = s\<lparr>fields' := fs\<rparr>"
| "apply_setter (SetSelectedField sel) s = s\<lparr>selectedField := sel\<rparr>"
| "apply_setter (SetIsEditing b) s = s\<lparr>isEditing := b\<rparr>"

text \<open>The setter calls of the three click handlers, run on the state \<open>st\<close> of a render.\<close>

definition sets_handleFieldDelete :: "string \<Rightarrow> State \<Rightarrow> setter list" where
  "sets_handleFieldDelete fieldId st =
     [SetFields (filter (\<lambda>field. id' field \<noteq> fieldId) (fields' st)),
      SetSelectedField None,
      SetIsEditing False]"

definition sets_handleFieldClick :: "PDFField \<Rightarrow> State \<Rightarrow> setter list" where
  "sets_handleFieldClick field st = [SetSelectedField (Some field), SetIsEditing True]"

definition sets_handleAddField :: "PDFTemplate \<Rightarrow> string \<Rightarrow> MouseEvent \<Rightarrow> State \<Rightarrow> setter list" where
  "sets_handleAddField template generated e st =
     (case containerRef st of
        None \<Rightarrow> []
      | Some rect \<Rightarrow>
          (let nf = newField template generated e rect (pageNumber st)
           in [SetFields (fields' st @ [nf]), SetSelectedField (Some nf), SetIsEditing True]))"

definition dispatch :: "(State \<Rightarrow> setter list) list \<Rightarrow> State \<Rightarrow> State" where
  "dispatch handlers st =
     foldl (\<lambda>s u. apply_setter u s) st (concat (map (\<lambda>h. h st) handlers))"

definition click_trash :: "PDFTemplate \<Rightarrow> string \<Rightarrow> MouseEvent \<Rightarrow> Region \<Rightarrow> State \<Rightarrow> State" where
  "click_trash template generated e r st =
     dispatch
       [sets_handleFieldDelete (id' (onClick_field r)),
        sets_handleFieldClick (onClick_field r),
        sets_handleAddField template generated e] st"

text \<open>
  The seven inputs of the inspector (lines 159-209) and the key each passes to
  \<open>handleFieldChange\<close>.
\<close>

datatype inspector_input =
  Name_input | Type_select | X_input | Y_input | Width_input | Height_input | Page_input

fun key_of :: "inspector_input \<Rightarrow> PDFField_key" where
  "key_of Name_input = K_name"
| "key_of Type_select = K_type"
| "key_of X_input = K_x"
| "key_of Y_input = K_y"
| "key_of Width_input = K_width"
| "key_of Height_input = K_height"
| "key_of Page_input = K_page"

text \<open>
  The user's actions on the in-memory collection, each with the whole dispatch it sets
  off: a create (a click on the surface), a click on a field's region or on anything
  inside it but the trash button, an edit through an inspector input of the field with
  the given identifier (a change event, which no other handler receives), and a delete
  (a click on the trash button of a region). Every click carries the identifier that
  \<open>handleAddField\<close> generates if the click reaches it with the surface mounted.
\<close>

datatype action =
  Create string MouseEvent
| Select Region string MouseEvent
| Edit string inspector_input string
| Delete Region string MouseEvent

fun act :: "PDFTemplate \<Rightarrow> action \<Rightarrow> State \<Rightarrow> State" where
  "act template (Create generated e) st = handleAddField template generated e st"
| "act template (Select r generated e) st = click_region template generated e r st"
| "act template (Edit fieldId i v) st = handleFieldChange v fieldId (key_of i) st"
| "act template (Delete r generated e) st = click_trash template generated e r st"

fun run :: "PDFTemplate \<Rightarrow> action list \<Rightarrow> State \<Rightarrow> State" where
  "run template [] st = st"
| "run template (a # as) st = run template as (act template a st)"

text \<open>The identifier generated for an action, if its dispatch reaches \<open>handleAddField\<close>.\<close>

fun generated_for :: "action \<Rightarrow> string option" where
  "generated_for (Create generated e) = Some generated"
| "generated_for (Select r generated e) = Some generated"
| "generated_for (Edit fieldId i v) = None"
| "generated_for (Delete r generated e) = Some generated"

text \<open>
  Whether every action of the sequence whose dispatch adds a field is given an identifier
  that no field of the collection carries at that moment.
\<close>

fun creates_fresh :: "PDFTemplate \<Rightarrow> action list \<Rightarrow> State \<Rightarrow> bool" where
  "creates_fresh template [] st = True"
| "creates_fresh template (a # as) st =
     ((case generated_for a of
         None \<Rightarrow> True
       | Some generated \<Rightarrow>
           containerRef st = None \<or> generated \<notin> set (map id' (fields' st)))
      \<and> creates_fresh template as (act template a st))"

section \<open>The remote store and the two asynchronous handlers\<close>

text \<open>
  What awaiting a call of the store client yields: the promise resolves to an object
  \<open>{ data, error }\<close>, where \<open>error\<close> is null or an error object of which only
  \<open>message\<close> is read, or the promise rejects with an error carrying a message.
\<close>

datatype 'a reply = Reply "'a option" "string option" | Rejects string

text \<open>
  The message with which control reaches the \<open>catch\<close> clause: a rejected \<open>await\<close> throws,
  and \<open>if (error) throw error\<close> throws the error of a resolved reply.
\<close>

fun failure :: "'a reply \<Rightarrow> string option" where
  "failure (Rejects msg) = Some msg"
| "failure (Reply d err) = err"

datatype remote_call =
  Select_eq string
| Delete_eq string
| Insert "FieldBody list"

datatype toast = Toast_error string | Toast_success string

datatype js_error = ReferenceError string

text \<open>
  The environment of an asynchronous handler: the rows of table \<open>pdf_fields\<close>, the replies
  the store gives to the three calls, and the identifier the store assigns to the k-th row
  of an insert.
\<close>

record Remote =
  rows :: "PDFField list"
  select_reply :: "PDFField list reply"
  delete_reply :: "unit reply"
  insert_reply :: "unit reply"
  server_id :: "nat \<Rightarrow> string"


text \<open>
  Modelled from the spec: the store is an external service, not code of the repository.
  Following sections 3 and 6 of the specification, a delete that succeeds removes the rows
  whose \<open>template_id\<close> is the given one, an insert that succeeds appends the given rows
  under identifiers of the store's choosing, and a call that fails changes nothing.
\<close>

definition store_delete :: "string \<Rightarrow> PDFField list \<Rightarrow> PDFField list" where
  "store_delete t rs = filter (\<lambda>r. template_id r \<noteq> t) rs"

definition with_id :: "string \<Rightarrow> FieldBody \<Rightarrow> PDFField" where
  "with_id i b =
     \<lparr>template_id = template_id b, name = name b, type = type b, x = x b, y = y b,
      width = width b, height = height b, page = page b, id' = i\<rparr>"

definition store_insert :: "(nat \<Rightarrow> string) \<Rightarrow> FieldBody list \<Rightarrow> PDFField list \<Rightarrow> PDFField list" where
  "store_insert assign payload rs =
     rs @ map (\<lambda>(k, b). with_id (assign k) b) (enumerate 0 payload)"

text \<open>What an asynchronous handler leaves behind.\<close>

record Effects =
  state :: State
  store :: "PDFField list"
  calls :: "remote_call list"
  toasts :: "toast list"
  thrown :: "js_error option"

text \<open>\<open>loadFields\<close> (lines 27-39); \<open>data || []\<close> is the empty list when \<open>data\<close> is null.\<close>

definition loadFields :: "PDFTemplate \<Rightarrow> Remote \<Rightarrow> State \<Rightarrow> Effects" where
  "loadFields template remote st =
     (case failure (select_reply remote) of
        Some msg \<Rightarrow>
          \<lparr>state = st, store = rows remote, calls = [Select_eq (tid template)],
           toasts = [Toast_error msg], thrown = None\<rparr>
      | None \<Rightarrow>
          \<lparr>state = st\<lparr>fields' :=
               (case select_reply remote of Reply (Some d) err \<Rightarrow> d | _ \<Rightarrow> [])\<rparr>,
           store = rows remote, calls = [Select_eq (tid template)],
           toasts = [], thrown = None\<rparr>)"

text \<open>
  The row sent for a field, \<open>{ ...field, template_id: template.id, id: undefined }\<close>: a key
  whose value is undefined is left out of the request body.
\<close>

definition insert_row :: "PDFTemplate \<Rightarrow> PDFField \<Rightarrow> FieldBody" where
  "insert_row template field = FieldBody.truncate (field\<lparr>template_id := tid template\<rparr>)"

text \<open>The \<open>try\<close> and \<open>catch\<close> clauses of \<open>handleSaveFields\<close> (lines 93-115).\<close>

definition save_try :: "PDFTemplate \<Rightarrow> Remote \<Rightarrow> State \<Rightarrow> Effects" where
  "save_try template remote st =
     (let del = Delete_eq (tid template);
          ins = Insert (map (insert_row template) (fields' st))
      in case failure (delete_reply remote) of
           Some msg \<Rightarrow>
             \<lparr>state = st, store = rows remote, calls = [del],
              toasts = [Toast_error msg], thrown = None\<rparr>
         | None \<Rightarrow>
             (let rows1 = store_delete (tid template) (rows remote)
              in case failure (insert_reply remote) of
                   Some msg \<Rightarrow>
                     \<lparr>state = st, store = rows1, calls = [del, ins],
                      toasts = [Toast_error msg], thrown = None\<rparr>
                 | None \<Rightarrow>
                     \<lparr>state = st,
                      store = store_insert (server_id remote)
                                (map (insert_row template) (fields' st)) rows1,
                      calls = [del, ins],
                      toasts = [Toast_success ''Fields saved successfully''],
                      thrown = None\<rparr>))"

text \<open>
  The names bound where the body of \<open>handleSaveFields\<close> is evaluated: the module's imports
  (lines 1-7), the component and its parameter (line 15), the state variables, their
  setters and the ref (lines 16-21), and the handlers (lines 27-91). No declaration and no
  import of the file binds any other name.
\<close>

definition PDFViewer_bindings :: "string list" where
  "PDFViewer_bindings =
     [''React'', ''useState'', ''useEffect'', ''useRef'', ''Document'', ''Page'', ''pdfjs'',
      ''PDFTemplate'', ''PDFField'', ''Pencil'', ''Trash2'', ''Plus'', ''toast'', ''supabase'',
      ''PDFViewer'', ''template'',
      ''numPages'', ''setNumPages'', ''pageNumber'', ''setPageNumber'', ''fields'', ''setFields'',
      ''selectedField'', ''setSelectedField'', ''isEditing'', ''setIsEditing'', ''containerRef'',
      ''loadFields'', ''onDocumentLoadSuccess'', ''handlePageChange'', ''handleAddField'',
      ''handleFieldClick'', ''handleFieldChange'', ''handleFieldDelete'', ''handleSaveFields'']"

definition bound :: "string \<Rightarrow> bool" where
  "bound ident = (ident \<in> set PDFViewer_bindings)"

text \<open>
  \<open>handleSaveFields\<close> (lines 91-119). Its first statement, \<open>setIsUploading(true)\<close>, stands
  before the \<open>try\<close>: evaluating an identifier that nothing binds throws a ReferenceError,
  which no clause of the function catches, so the promise the handler returns is rejected
  and nothing after the statement runs. Were the name bound, the \<open>try\<close> statement would
  run; what the absent setter would do to an absent state variable is not modelled.
\<close>

definition handleSaveFields :: "PDFTemplate \<Rightarrow> Remote \<Rightarrow> State \<Rightarrow> Effects" where
  "handleSaveFields template remote st =
     (if bound ''setIsUploading'' then save_try template remote st
      else \<lparr>state = st, store = rows remote, calls = [], toasts = [],
            thrown = Some (ReferenceError ''setIsUploading'')\<rparr>)"

section \<open>Concrete inputs\<close>

text \<open>
  A template, two of its fields on different pages, a surface whose box starts at (10, 20),
  a click at client position (50, 80), which is (40, 60) relative to the surface, and two
  states: an empty collection with page 2 displayed, and the two fields with page 1
  displayed and the first field selected.
\<close>

definition template_A :: PDFTemplate where
  "template_A = \<lparr>tid = ''T1'', file_url = ''forms/a.pdf''\<rparr>"

definition field_a :: PDFField where
  "field_a =
     \<lparr>template_id = ''T1'', name = ''Officer'', type = ''editable'', x = Num 40, y = Num 60,
      width = Num 100, height = Num 20, page = Num 1, id' = ''a''\<rparr>"

definition field_b :: PDFField where
  "field_b =
     \<lparr>template_id = ''T1'', name = ''Date'', type = ''prefilled'', x = Num 15, y = Num 200,
      width = Num 80, height = Num 20, page = Num 2, id' = ''b''\<rparr>"

definition surface :: DOMRect where
  "surface = \<lparr>rect_left = 10, rect_top = 20\<rparr>"

definition click_50_80 :: MouseEvent where
  "click_50_80 = \<lparr>clientX = 50, clientY = 80\<rparr>"

definition state_empty :: State where
  "state_empty =
     \<lparr>numPages = 3, pageNumber = 2, fields' = [], selectedField = None, isEditing = False,
      containerRef = Some surface\<rparr>"

definition state_ab :: State where
  "state_ab =
     \<lparr>numPages = 3, pageNumber = 1, fields' = [field_a, field_b],
      selectedField = Some field_a, isEditing = True, containerRef = Some surface\<rparr>"

text \<open>
  A store that holds field \<open>a\<close> and accepts every call, and the same store refusing the
  delete.
\<close>

definition remote_ok :: Remote where
  "remote_ok =
     \<lparr>rows = [field_a], select_reply = Reply (Some [field_a]) None,
      delete_reply = Reply None None, insert_reply = Reply None None,
      server_id = (\<lambda>k. replicate (Suc k) CHR ''s'')\<rparr>"

definition remote_refusing :: Remote where
  "remote_refusing = remote_ok\<lparr>delete_reply := Reply None (Some ''permission denied'')\<rparr>"

text \<open>
  The store out of reach for the select, and the store accepting the delete and failing
  the insert.
\<close>

definition remote_offline :: Remote where
  "remote_offline = remote_ok\<lparr>select_reply := Rejects ''Failed to fetch''\<rparr>"

definition remote_insert_fails :: Remote where
  "remote_insert_fails = remote_ok\<lparr>insert_reply := Reply None (Some ''row too large'')\<rparr>"

lemmas example_defs =
  template_A_def field_a_def field_b_def surface_def click_50_80_def state_empty_def
  state_ab_def remote_ok_def remote_refusing_def remote_offline_def remote_insert_fails_def

section \<open>Creating, editing and deleting fields\<close>

lemma attr_set_attr_same: "attr k (set_attr k v f) = Str v"
  by (cases k) simp_all

lemma attr_set_attr_other: "k' \<noteq> k \<Longrightarrow> attr k' (set_attr k v f) = attr k' f"
  by (cases k; cases k') simp_all

lemma id_set_attr: "k \<noteq> K_id \<Longrightarrow> id' (set_attr k v f) = id' f"
  by (cases k) simp_all

text \<open>The nine attributes read by \<open>attr\<close> are all there is to a field.\<close>

lemma attr_determines:
  fixes f g :: PDFField
  assumes h: "\<And>k. attr k f = attr k g"
  shows "f = g"
proof -
  have "id' f = id' g" using h [of K_id] by simp
  moreover have "template_id f = template_id g" using h [of K_template_id] by simp
  moreover have "name f = name g" using h [of K_name] by simp
  moreover have "type f = type g" using h [of K_type] by simp
  moreover have "x f = x g" using h [of K_x] by simp
  moreover have "y f = y g" using h [of K_y] by simp
  moreover have "width f = width g" using h [of K_width] by simp
  moreover have "height f = height g" using h [of K_height] by simp
  moreover have "page f = page g" using h [of K_page] by simp
  ultimately show "f = g" by simp
qed

text \<open>
  C4. A click on the surface at client coordinates \<open>e\<close>, while the surface is mounted with
  bounding box \<open>rect\<close> and page \<open>pageNumber st\<close> is displayed, appends exactly one field to
  the collection: its offset is the click position relative to the box, its size is
  100 by 20, its kind is "editable", its name is "New Field", its page is the displayed
  page and its template identifier is the current template's. That field becomes the
  selected field and edit mode becomes true; the page state is untouched.
\<close>

theorem handleAddField_creates:
  assumes "containerRef st = Some rect"
  shows "\<exists>nf. fields' (handleAddField template generated e st) = fields' st @ [nf]
           \<and> x nf = Num (clientX e - rect_left rect)
           \<and> y nf = Num (clientY e - rect_top rect)
           \<and> width nf = Num 100 \<and> height nf = Num 20
           \<and> type nf = ''editable'' \<and> name nf = ''New Field''
           \<and> page nf = Num (of_int (pageNumber st))
           \<and> template_id nf = tid template
           \<and> selectedField (handleAddField template generated e st) = Some nf
           \<and> isEditing (handleAddField template generated e st)
           \<and> pageNumber (handleAddField template generated e st) = pageNumber st
           \<and> numPages (handleAddField template generated e st) = numPages st"
  using assms by (simp add: handleAddField_def newField_def Let_def)

text \<open>
  The scenario of the specification: on an empty collection with page 2 displayed, one
  click at (40, 60) relative to the surface leaves the single field
  \<open>{x: 40, y: 60, width: 100, height: 20, page: 2, type: "editable"}\<close>, selected, with the
  inspector open.
\<close>

theorem handleAddField_creates_witness:
  "containerRef state_empty = Some surface
   \<and> fields' (handleAddField template_A ''k3j'' click_50_80 state_empty) =
       [\<lparr>template_id = ''T1'', name = ''New Field'', type = ''editable'', x = Num 40,
         y = Num 60, width = Num 100, height = Num 20, page = Num 2, id' = ''k3j''\<rparr>]
   \<and> selectedField (handleAddField template_A ''k3j'' click_50_80 state_empty) =
       Some \<lparr>template_id = ''T1'', name = ''New Field'', type = ''editable'', x = Num 40,
         y = Num 60, width = Num 100, height = Num 20, page = Num 2, id' = ''k3j''\<rparr>
   \<and> isEditing (handleAddField template_A ''k3j'' click_50_80 state_empty)"
  using handleAddField_creates [of state_empty surface template_A "''k3j''" click_50_80]
  by (simp add: example_defs handleAddField_def newField_def Let_def)

text \<open>
  C5. An edit of attribute \<open>k\<close> with value \<open>v\<close> for identifier \<open>I\<close> keeps the length and the
  order of the collection. At every position whose field carries identifier \<open>I\<close>, attribute
  \<open>k\<close> becomes \<open>v\<close> and every other attribute keeps its value; at every other position the
  field is unchanged. For every key but \<open>id\<close> the identifiers stay where they were.
  Selection, edit mode and page state are untouched.
\<close>

theorem handleFieldChange_frame:
  "length (fields' (handleFieldChange v I k st)) = length (fields' st)
   \<and> (\<forall>i < length (fields' st).
         (id' (fields' st ! i) = I \<longrightarrow>
            attr k (fields' (handleFieldChange v I k st) ! i) = Str v
            \<and> (\<forall>k'. k' \<noteq> k \<longrightarrow>
                  attr k' (fields' (handleFieldChange v I k st) ! i) = attr k' (fields' st ! i)))
         \<and> (id' (fields' st ! i) \<noteq> I \<longrightarrow>
              fields' (handleFieldChange v I k st) ! i = fields' st ! i))
   \<and> (k \<noteq> K_id \<longrightarrow> map id' (fields' (handleFieldChange v I k st)) = map id' (fields' st))
   \<and> selectedField (handleFieldChange v I k st) = selectedField st
   \<and> isEditing (handleFieldChange v I k st) = isEditing st
   \<and> pageNumber (handleFieldChange v I k st) = pageNumber st
   \<and> numPages (handleFieldChange v I k st) = numPages st"
  by (simp add: handleFieldChange_def attr_set_attr_same attr_set_attr_other id_set_attr)

text \<open>Typing 12 into the X input of field \<open>a\<close>: its \<open>x\<close> is the string, field \<open>b\<close> is as before.\<close>

theorem handleFieldChange_frame_witness:
  "id' (fields' state_ab ! 0) = ''a''
   \<and> attr K_x (fields' (handleFieldChange ''12'' ''a'' K_x state_ab) ! 0) = Str ''12''
   \<and> attr K_y (fields' (handleFieldChange ''12'' ''a'' K_x state_ab) ! 0) = Num 60
   \<and> attr K_name (fields' (handleFieldChange ''12'' ''a'' K_x state_ab) ! 0) = Str ''Officer''
   \<and> fields' (handleFieldChange ''12'' ''a'' K_x state_ab) ! 1 = field_b
   \<and> length (fields' (handleFieldChange ''12'' ''a'' K_x state_ab)) = 2"
  using handleFieldChange_frame [of "''12''" "''a''" K_x state_ab]
  by (simp add: example_defs handleFieldChange_def)

text \<open>
  The delete handler taken alone: on a collection with pairwise distinct identifiers that
  holds a field with identifier \<open>I\<close>, it removes that one entry and keeps every other
  field, in order; it clears the selection and leaves edit mode.
\<close>

lemma handleFieldDelete_removes_one:
  assumes "distinct (map id' (fields' st))" and "I \<in> set (map id' (fields' st))"
  shows "(\<exists>pre f post. fields' st = pre @ f # post \<and> id' f = I
            \<and> fields' (handleFieldDelete I st) = pre @ post)
         \<and> selectedField (handleFieldDelete I st) = None
         \<and> \<not> isEditing (handleFieldDelete I st)
         \<and> pageNumber (handleFieldDelete I st) = pageNumber st
         \<and> numPages (handleFieldDelete I st) = numPages st"
proof -
  from assms(2) obtain f where f: "f \<in> set (fields' st)" "id' f = I"
    by auto
  then obtain pre post where sp: "fields' st = pre @ f # post"
    by (auto dest: split_list)
  from assms(1) sp f(2) have "I \<notin> id' ` set pre" "I \<notin> id' ` set post"
    by auto
  hence "filter (\<lambda>field. id' field \<noteq> I) pre = pre"
    and "filter (\<lambda>field. id' field \<noteq> I) post = post"
    by (auto simp: filter_id_conv)
  with sp f(2) have "fields' (handleFieldDelete I st) = pre @ post"
    by (simp add: handleFieldDelete_def)
  with sp f(2) show ?thesis
    by (auto simp: handleFieldDelete_def)
qed

lemma handleFieldDelete_removes_one_example:
  "distinct (map id' (fields' state_ab)) \<and> ''a'' \<in> set (map id' (fields' state_ab))
   \<and> fields' (handleFieldDelete ''a'' state_ab) = [field_b]
   \<and> selectedField (handleFieldDelete ''a'' state_ab) = None
   \<and> \<not> isEditing (handleFieldDelete ''a'' state_ab)"
  using handleFieldDelete_removes_one [of state_ab "''a''"]
  by (simp add: example_defs handleFieldDelete_def)

section \<open>Dispatch of a click\<close>

text \<open>Run alone, a handler's setter calls give the state the handler is defined to give.\<close>

lemma dispatch_handleFieldDelete:
  "dispatch [sets_handleFieldDelete fieldId] st = handleFieldDelete fieldId st"
  by (simp add: dispatch_def sets_handleFieldDelete_def handleFieldDelete_def)

lemma dispatch_handleFieldClick:
  "dispatch [sets_handleFieldClick field] st = handleFieldClick field st"
  by (simp add: dispatch_def sets_handleFieldClick_def handleFieldClick_def)

lemma dispatch_handleAddField:
  "dispatch [sets_handleAddField template generated e] st = handleAddField template generated e st"
  by (simp add: dispatch_def sets_handleAddField_def handleAddField_def Let_def
      split: option.splits)

lemma dispatch_click_region:
  "dispatch [sets_handleFieldClick (onClick_field r), sets_handleAddField template generated e] st
     = click_region template generated e r st"
  by (simp add: dispatch_def sets_handleFieldClick_def sets_handleAddField_def click_region_def
      handleAddField_def handleFieldClick_def Let_def split: option.splits)

text \<open>
  With the surface mounted, the surface's handler has the last word on all three state
  variables the trash button's handler sets, and it computes the collection from the
  render's \<open>fields\<close>, which still holds the field to delete: the click as a whole is a
  create. Only with the surface unmounted would the delete show, and even then the
  region's handler selects the deleted field again.
\<close>

lemma click_trash_mounted:
  assumes "containerRef st = Some rect"
  shows "click_trash template generated e r st = handleAddField template generated e st"
  using assms
  by (simp add: click_trash_def dispatch_def sets_handleFieldDelete_def
      sets_handleFieldClick_def sets_handleAddField_def handleAddField_def Let_def)

lemma click_trash_unmounted:
  assumes "containerRef st = None"
  shows "click_trash template generated e r st =
           handleFieldClick (onClick_field r) (handleFieldDelete (id' (onClick_field r)) st)"
  using assms
  by (simp add: click_trash_def dispatch_def sets_handleFieldDelete_def
      sets_handleFieldClick_def sets_handleAddField_def handleFieldClick_def
      handleFieldDelete_def)

text \<open>
  C6 does not hold of the component. With fields \<open>a\<close> and \<open>b\<close> in the collection, \<open>a\<close>
  selected and its inspector open, a click on the trash button of \<open>a\<close> removes no entry:
  the collection is then \<open>a\<close>, \<open>b\<close> and a field newly created at the click position, that
  new field is selected and edit mode is on.
\<close>

theorem trash_click_removes_nothing:
  "inspector (render_fields state_ab ! 0)
   \<and> onClick_field (render_fields state_ab ! 0) = field_a
   \<and> map id' (fields' (click_trash template_A ''k3j'' click_50_80
        (render_fields state_ab ! 0) state_ab)) = [''a'', ''b'', ''k3j'']
   \<and> selectedField (click_trash template_A ''k3j'' click_50_80
        (render_fields state_ab ! 0) state_ab) =
       Some (newField template_A ''k3j'' click_50_80 surface 1)
   \<and> isEditing (click_trash template_A ''k3j'' click_50_80
        (render_fields state_ab ! 0) state_ab)"
  by (simp add: example_defs click_trash_def dispatch_def sets_handleFieldDelete_def
      sets_handleFieldClick_def sets_handleAddField_def newField_def Let_def
      render_fields_def render_field_def is_selected_def)

section \<open>Uniqueness of identifiers\<close>

lemma ids_handleFieldChange:
  "k \<noteq> K_id \<Longrightarrow> map id' (fields' (handleFieldChange v I k st)) = map id' (fields' st)"
  by (simp add: handleFieldChange_def id_set_attr)

lemma key_of_not_id: "key_of i \<noteq> K_id"
  by (cases i) simp_all

lemma handleAddField_keeps_distinct:
  assumes "distinct (map id' (fields' st))"
    and "containerRef st = None \<or> generated \<notin> set (map id' (fields' st))"
  shows "distinct (map id' (fields' (handleAddField template generated e st)))"
  using assms
  by (auto simp: handleAddField_def newField_def Let_def split: option.splits)

lemma click_region_keeps_distinct:
  assumes "distinct (map id' (fields' st))"
    and "containerRef st = None \<or> generated \<notin> set (map id' (fields' st))"
  shows "distinct (map id' (fields' (click_region template generated e r st)))"
  using assms
  by (auto simp: click_region_def handleFieldClick_def handleAddField_def newField_def Let_def
      split: option.splits)

lemma click_trash_keeps_distinct:
  assumes "distinct (map id' (fields' st))"
    and "containerRef st = None \<or> generated \<notin> set (map id' (fields' st))"
  shows "distinct (map id' (fields' (click_trash template generated e r st)))"
proof (cases "containerRef st")
  case None
  with assms(1) show ?thesis
    by (simp add: click_trash_unmounted handleFieldClick_def handleFieldDelete_def
        distinct_map_filter)
next
  case (Some rect)
  from assms have "distinct (map id' (fields' (handleAddField template generated e st)))"
    by (rule handleAddField_keeps_distinct)
  with Some show ?thesis
    by (simp add: click_trash_mounted)
qed

lemma act_keeps_distinct:
  assumes "distinct (map id' (fields' st))" and "creates_fresh template [a] st"
  shows "distinct (map id' (fields' (act template a st)))"
proof (cases a)
  case (Create generated e)
  with assms show ?thesis
    by (simp add: handleAddField_keeps_distinct)
next
  case (Select r generated e)
  with assms show ?thesis
    by (simp add: click_region_keeps_distinct)
next
  case (Edit I i v)
  with assms(1) show ?thesis
    by (simp add: ids_handleFieldChange key_of_not_id)
next
  case (Delete r generated e)
  with assms show ?thesis
    by (simp add: click_trash_keeps_distinct)
qed

lemma creates_fresh_head:
  "creates_fresh template (a # as) st \<Longrightarrow> creates_fresh template [a] st"
  by simp

lemma creates_fresh_tail:
  "creates_fresh template (a # as) st \<Longrightarrow> creates_fresh template as (act template a st)"
  by simp

text \<open>
  C3, as stated, fails: the identifier of a new field is whatever the random expression
  yields, and nothing compares it with the identifiers in the collection. Two creates
  that are given the same identifier leave two fields carrying it.
\<close>

theorem create_twice_same_identifier:
  "distinct (map id' (fields' state_empty))
   \<and> map id' (fields' (run template_A
        [Create ''k3j'' click_50_80, Create ''k3j'' click_50_80] state_empty)) = [''k3j'', ''k3j'']
   \<and> \<not> distinct (map id' (fields' (run template_A
        [Create ''k3j'' click_50_80, Create ''k3j'' click_50_80] state_empty)))"
  by (simp add: example_defs handleAddField_def newField_def Let_def)

text \<open>
  C3, amended. Starting from a collection with pairwise distinct identifiers, every
  sequence of user actions (clicks on the surface, clicks on a field's region, inspector
  edits, clicks on a trash button) in which each field added is given an identifier not
  present in the collection at that moment leaves the identifiers pairwise distinct.
\<close>

theorem identifiers_stay_distinct:
  assumes "distinct (map id' (fields' st))" and "creates_fresh template as st"
  shows "distinct (map id' (fields' (run template as st)))"
  using assms
proof (induction as arbitrary: st)
  case Nil
  then show ?case by simp
next
  case (Cons a as)
  from Cons.prems(2) have one: "creates_fresh template [a] st"
    by (rule creates_fresh_head)
  from Cons.prems(2) have rest: "creates_fresh template as (act template a st)"
    by (rule creates_fresh_tail)
  from Cons.prems(1) one have "distinct (map id' (fields' (act template a st)))"
    by (rule act_keeps_distinct)
  from Cons.IH [OF this rest] show ?case
    by simp
qed

text \<open>
  A create, an edit of \<open>a\<close>, a click on the region of \<open>b\<close>, a click on the trash button of
  \<open>b\<close>, each click with an identifier of its own; and, with the surface unmounted, a click
  on the trash button of \<open>b\<close>, whose generated identifier then does not matter.
\<close>

theorem identifiers_stay_distinct_witness:
  "distinct (map id' (fields' state_ab))
   \<and> creates_fresh template_A
        [Create ''k3j'' click_50_80, Edit ''a'' X_input ''12'',
         Select (render_field state_ab field_b) ''m7q'' click_50_80,
         Delete (render_field state_ab field_b) ''z0x'' click_50_80] state_ab
   \<and> map id' (fields' (run template_A
        [Create ''k3j'' click_50_80, Edit ''a'' X_input ''12'',
         Select (render_field state_ab field_b) ''m7q'' click_50_80,
         Delete (render_field state_ab field_b) ''z0x'' click_50_80] state_ab))
       = [''a'', ''b'', ''k3j'', ''m7q'', ''z0x'']
   \<and> creates_fresh template_A
        [Delete (render_field state_ab field_b) ''a'' click_50_80]
        (state_ab\<lparr>containerRef := None\<rparr>)
   \<and> map id' (fields' (run template_A
        [Delete (render_field state_ab field_b) ''a'' click_50_80]
        (state_ab\<lparr>containerRef := None\<rparr>))) = [''a'']"
  using identifiers_stay_distinct [of state_ab template_A
    "[Create ''k3j'' click_50_80, Edit ''a'' X_input ''12'',
      Select (render_field state_ab field_b) ''m7q'' click_50_80,
      Delete (render_field state_ab field_b) ''z0x'' click_50_80]"]
    identifiers_stay_distinct [of "state_ab\<lparr>containerRef := None\<rparr>" template_A
    "[Delete (render_field state_ab field_b) ''a'' click_50_80]"]
  by (simp add: example_defs handleAddField_def newField_def handleFieldChange_def
      handleFieldDelete_def handleFieldClick_def click_region_def click_trash_def
      dispatch_def sets_handleFieldDelete_def sets_handleFieldClick_def
      sets_handleAddField_def render_field_def is_selected_def Let_def)

section \<open>Page navigation\<close>

lemma click_nav_in_range:
  assumes "1 \<le> pageNumber st" and "pageNumber st \<le> numPages st"
  shows "1 \<le> pageNumber (click_nav b st)
         \<and> pageNumber (click_nav b st) \<le> numPages (click_nav b st)
         \<and> numPages (click_nav b st) = numPages st"
  using assms
  by (cases b) (auto simp: previous_disabled_def next_disabled_def handlePageChange_def)

lemma click_navs_in_range:
  assumes "1 \<le> pageNumber st" and "pageNumber st \<le> numPages st"
  shows "1 \<le> pageNumber (click_navs bs st) \<and> pageNumber (click_navs bs st) \<le> numPages st
         \<and> numPages (click_navs bs st) = numPages st"
  using assms
proof (induction bs arbitrary: st)
  case Nil
  then show ?case by simp
next
  case (Cons b bs)
  from click_nav_in_range [OF Cons.prems, of b]
  have "1 \<le> pageNumber (click_nav b st)"
    and "pageNumber (click_nav b st) \<le> numPages (click_nav b st)"
    and n: "numPages (click_nav b st) = numPages st"
    by simp_all
  from Cons.IH [OF this(1,2)] n show ?case
    by simp
qed

text \<open>An enabled button moves the page by one.\<close>

lemma click_nav_moves:
  "\<not> previous_disabled st \<Longrightarrow> pageNumber (click_nav Previous st) = pageNumber st - 1"
  "\<not> next_disabled st \<Longrightarrow> pageNumber (click_nav Next st) = pageNumber st + 1"
  by (simp_all add: handlePageChange_def)

text \<open>
  C10. In a state whose page number lies in [1, numPages], "Previous" is disabled exactly
  when the page is 1 and "Next" exactly when the page is numPages; after any sequence of
  clicks on the two buttons the page number still lies in [1, numPages], and the page
  count is the same.
\<close>

theorem navigation_bounded:
  assumes "1 \<le> pageNumber st" and "pageNumber st \<le> numPages st"
  shows "(previous_disabled st \<longleftrightarrow> pageNumber st = 1)
         \<and> (next_disabled st \<longleftrightarrow> pageNumber st = numPages st)
         \<and> 1 \<le> pageNumber (click_navs bs st)
         \<and> pageNumber (click_navs bs st) \<le> numPages (click_navs bs st)
         \<and> numPages (click_navs bs st) = numPages st"
  using assms click_navs_in_range [OF assms, of bs]
  by (auto simp: previous_disabled_def next_disabled_def)

text \<open>
  Three pages, page 1 displayed: "Previous" does nothing, four clicks on "Next" stop at
  page 3, and "Previous" then leads to page 2.
\<close>

theorem navigation_bounded_witness:
  "1 \<le> pageNumber state_ab \<and> pageNumber state_ab \<le> numPages state_ab
   \<and> previous_disabled state_ab \<and> \<not> next_disabled state_ab
   \<and> pageNumber (click_navs [Previous, Next, Next, Next, Next] state_ab) = 3
   \<and> next_disabled (click_navs [Previous, Next, Next, Next, Next] state_ab)
   \<and> pageNumber (click_navs [Previous, Next, Next, Next, Next, Previous] state_ab) = 2
   \<and> numPages (click_navs [Previous, Next, Next, Next, Next, Previous] state_ab) = 3"
  using navigation_bounded [of state_ab "[Previous, Next, Next, Next, Next, Previous]"]
  by (simp add: example_defs previous_disabled_def next_disabled_def handlePageChange_def)

section \<open>The overlay\<close>

text \<open>
  C7, as stated, fails: the overlay is \<open>fields.map\<close> over the whole collection, and no
  expression of the component compares a field's page with the displayed page. With page
  1 displayed, the field on page 2 is rendered too, at its own offset.
\<close>

theorem overlay_shows_other_page:
  "pageNumber state_ab = 1 \<and> page field_b = Num 2
   \<and> map onClick_field (render_fields state_ab) = [field_a, field_b]
   \<and> style_left (render_fields state_ab ! 1) = Num 15
   \<and> style_top (render_fields state_ab ! 1) = Num 200"
  by (simp add: example_defs render_fields_def render_field_def)

text \<open>
  C7, amended. The overlay renders one clickable region per field of the in-memory
  collection, in the collection's order and whatever the field's page: the region is
  keyed by the field's identifier, its click selects that field, and its inline style
  gives \<open>left\<close>, \<open>top\<close>, \<open>width\<close> and \<open>height\<close> the field's stored \<open>x\<close>, \<open>y\<close>, \<open>width\<close> and
  \<open>height\<close>. Where a stored value is a number, the region is positioned or sized at that
  many pixels; where it is a string, as after an edit through the inspector, the string is
  handed to the style as it is and no pixel length is made of it. The displayed page has
  no influence on the overlay.
\<close>

theorem render_fields_every_field:
  "length (render_fields st) = length (fields' st)
   \<and> (\<forall>i < length (fields' st).
         onClick_field (render_fields st ! i) = fields' st ! i
         \<and> region_key (render_fields st ! i) = id' (fields' st ! i)
         \<and> style_left (render_fields st ! i) = x (fields' st ! i)
         \<and> style_top (render_fields st ! i) = y (fields' st ! i)
         \<and> style_width (render_fields st ! i) = width (fields' st ! i)
         \<and> style_height (render_fields st ! i) = height (fields' st ! i)
         \<and> px_length (style_left (render_fields st ! i)) =
             (case x (fields' st ! i) of Num n \<Rightarrow> Some n | Str s \<Rightarrow> None)
         \<and> px_length (style_top (render_fields st ! i)) =
             (case y (fields' st ! i) of Num n \<Rightarrow> Some n | Str s \<Rightarrow> None)
         \<and> px_length (style_width (render_fields st ! i)) =
             (case width (fields' st ! i) of Num n \<Rightarrow> Some n | Str s \<Rightarrow> None)
         \<and> px_length (style_height (render_fields st ! i)) =
             (case height (fields' st ! i) of Num n \<Rightarrow> Some n | Str s \<Rightarrow> None))
   \<and> render_fields (st\<lparr>pageNumber := p\<rparr>) = render_fields st"
  by (simp add: render_fields_def render_field_def is_selected_def split: jsval.splits)

text \<open>
  Both fields of the example are rendered with page 1 or page 3 displayed, \<open>a\<close> at 40 by 60
  pixels with size 100 by 20. Once 12 has been typed into the X input of \<open>a\<close>, the style
  of its region has the string "12" for \<open>left\<close>, which is no pixel length, and its \<open>top\<close> is
  still 60 pixels.
\<close>

theorem render_fields_every_field_witness:
  "length (render_fields state_ab) = 2
   \<and> px_length (style_left (render_fields state_ab ! 0)) = Some 40
   \<and> px_length (style_top (render_fields state_ab ! 0)) = Some 60
   \<and> px_length (style_width (render_fields state_ab ! 0)) = Some 100
   \<and> px_length (style_height (render_fields state_ab ! 0)) = Some 20
   \<and> onClick_field (render_fields state_ab ! 1) = field_b
   \<and> render_fields (state_ab\<lparr>pageNumber := 3\<rparr>) = render_fields state_ab
   \<and> style_left (render_fields (handleFieldChange ''12'' ''a'' K_x state_ab) ! 0) = Str ''12''
   \<and> px_length (style_left (render_fields (handleFieldChange ''12'' ''a'' K_x state_ab) ! 0))
       = None
   \<and> px_length (style_top (render_fields (handleFieldChange ''12'' ''a'' K_x state_ab) ! 0))
       = Some 60"
  using render_fields_every_field [of state_ab 3]
    render_fields_every_field [of "handleFieldChange ''12'' ''a'' K_x state_ab" 3]
  by (simp add: example_defs render_fields_def render_field_def is_selected_def
      handleFieldChange_def)

section \<open>Clicks on a field's region\<close>

text \<open>The field's own handler selects the field and leaves the collection alone.\<close>

lemma handleFieldClick_selects:
  "selectedField (handleFieldClick field st) = Some field
   \<and> isEditing (handleFieldClick field st)
   \<and> fields' (handleFieldClick field st) = fields' st"
  by (simp add: handleFieldClick_def)

text \<open>
  The click then reaches the surface: whenever the surface is mounted, a click on a region
  appends a new field and selects it.
\<close>

lemma click_region_appends:
  assumes "containerRef st = Some rect"
  shows "fields' (click_region template generated e r st) =
           fields' st @ [newField template generated e rect (pageNumber st)]
         \<and> selectedField (click_region template generated e r st) =
             Some (newField template generated e rect (pageNumber st))"
  using assms
  by (simp add: click_region_def handleAddField_def handleFieldClick_def Let_def)

text \<open>
  C8 does not hold of the component. A click on the region of field \<open>a\<close> leaves three
  fields in the collection, the third newly created at the click position, and the
  selected field is the new one, not \<open>a\<close>.
\<close>

theorem click_on_field_adds_field:
  "onClick_field (render_fields state_ab ! 0) = field_a
   \<and> map id' (fields' (click_region template_A ''k3j'' click_50_80
        (render_fields state_ab ! 0) state_ab)) = [''a'', ''b'', ''k3j'']
   \<and> selectedField (click_region template_A ''k3j'' click_50_80
        (render_fields state_ab ! 0) state_ab) =
       Some (newField template_A ''k3j'' click_50_80 surface 1)
   \<and> fields' (click_region template_A ''k3j'' click_50_80 (render_fields state_ab ! 0) state_ab)
       \<noteq> fields' state_ab"
  by (simp add: example_defs click_region_def handleAddField_def handleFieldClick_def
      newField_def Let_def render_fields_def render_field_def is_selected_def)

section \<open>Loading and saving\<close>

text \<open>A failed load is notified with the error's message and leaves the state as it was.\<close>

lemma loadFields_failure:
  assumes "failure (select_reply remote) = Some msg"
  shows "toasts (loadFields template remote st) = [Toast_error msg]
         \<and> state (loadFields template remote st) = st
         \<and> thrown (loadFields template remote st) = None"
  using assms by (simp add: loadFields_def)

lemma loadFields_success:
  assumes "select_reply remote = Reply d None"
  shows "fields' (state (loadFields template remote st)) = (case d of None \<Rightarrow> [] | Some rs \<Rightarrow> rs)
         \<and> toasts (loadFields template remote st) = []"
  using assms by (cases d) (simp_all add: loadFields_def)

text \<open>
  What the \<open>try\<close> statement of the save handler does once control reaches it: a delete for
  the template, then, only if the delete succeeded, an insert of the collection without
  identifiers and under the template's identifier; every failure is notified; the
  component's state is never written.
\<close>

lemma save_try_delete_fails:
  assumes "failure (delete_reply remote) = Some msg"
  shows "save_try template remote st =
           \<lparr>state = st, store = rows remote, calls = [Delete_eq (tid template)],
            toasts = [Toast_error msg], thrown = None\<rparr>"
  using assms by (simp add: save_try_def)

lemma save_try_insert_fails:
  assumes "failure (delete_reply remote) = None"
    and "failure (insert_reply remote) = Some msg"
  shows "save_try template remote st =
           \<lparr>state = st, store = store_delete (tid template) (rows remote),
            calls = [Delete_eq (tid template), Insert (map (insert_row template) (fields' st))],
            toasts = [Toast_error msg], thrown = None\<rparr>"
  using assms by (simp add: save_try_def Let_def)

lemma save_try_succeeds:
  assumes "failure (delete_reply remote) = None"
    and "failure (insert_reply remote) = None"
  shows "calls (save_try template remote st) =
           [Delete_eq (tid template), Insert (map (insert_row template) (fields' st))]
         \<and> toasts (save_try template remote st) = [Toast_success ''Fields saved successfully'']"
  using assms by (simp add: save_try_def Let_def)

lemma store_delete_none_left: "filter (\<lambda>r. template_id r = t) (store_delete t rs) = []"
  by (induction rs) (simp_all add: store_delete_def)

lemma insert_row_attrs:
  "template_id (insert_row template f) = tid template"
  "name (insert_row template f) = name f"
  "type (insert_row template f) = type f"
  "x (insert_row template f) = x f"
  "y (insert_row template f) = y f"
  "width (insert_row template f) = width f"
  "height (insert_row template f) = height f"
  "page (insert_row template f) = page f"
  by (simp_all add: insert_row_def FieldBody.truncate_def)

lemma save_try_state: "state (save_try template remote st) = st"
  by (simp add: save_try_def Let_def split: option.splits)

text \<open>
  C2. Nothing binds \<open>setIsUploading\<close> or \<open>isUploading\<close> where the save handler runs. Hence
  every invocation, whatever the template, the store and the state, ends with a
  ReferenceError for \<open>setIsUploading\<close> before any remote call: no delete and no insert is
  issued, no notification (of success or of failure) is raised, and store and state are
  as they were.
\<close>

theorem handleSaveFields_throws:
  "\<not> bound ''setIsUploading'' \<and> \<not> bound ''isUploading''
   \<and> thrown (handleSaveFields template remote st) = Some (ReferenceError ''setIsUploading'')
   \<and> calls (handleSaveFields template remote st) = []
   \<and> toasts (handleSaveFields template remote st) = []
   \<and> store (handleSaveFields template remote st) = rows remote
   \<and> state (handleSaveFields template remote st) = st"
  by (simp add: handleSaveFields_def bound_def PDFViewer_bindings_def)

text \<open>
  C1 does not hold of the component. With two fields in memory and a store that would
  accept both calls, the save handler issues no call at all: the row stored for the
  template stays, and the handler ends with the ReferenceError.
\<close>

theorem save_issues_no_call:
  "fields' state_ab = [field_a, field_b]
   \<and> failure (delete_reply remote_ok) = None \<and> failure (insert_reply remote_ok) = None
   \<and> calls (handleSaveFields template_A remote_ok state_ab) = []
   \<and> store (handleSaveFields template_A remote_ok state_ab) = [field_a]
   \<and> thrown (handleSaveFields template_A remote_ok state_ab) =
       Some (ReferenceError ''setIsUploading'')"
  by (simp add: example_defs handleSaveFields_def bound_def PDFViewer_bindings_def)



end
